theory Spec2Isabelle
  imports Complex_Main "HOL-Library.Char_ord" "HOL-Library.List_Lexorder"
begin

section \<open>Python values used by selection/run.py\<close>

text \<open>
  Text and byte strings are modelled as \<open>string\<close>. In a text the characters stand
  for the code points below 256, where Python's \<open>str.lower\<close> and \<open>str.strip\<close> act
  as written below; text with code points from 256 on is outside the model.
  Wall-clock and CPU times (Python floats) are modelled as \<open>real\<close>, Python integers
  as \<open>int\<close>.
  The rounding done when a number is formatted for a CSV cell (\<open>:.4f\<close>, \<open>:.2f\<close>,
  \<open>:.1f\<close>) is not modelled: a row holds the number that is formatted.
\<close>

datatype py_exn =
    OSError
  | UnicodeDecodeError
  | EngineError
  | PickleError
  | FileNotFoundError
  | UnicodeEncodeError
  | UnboundLocalError string

datatype scalar = SInt int | SReal real | SStr string | SNull

type_synonym row = "scalar list"

record cpu_times =
  user :: real
  system :: real

subsection \<open>String operations\<close>

text \<open>
  \<open>str.lower\<close> on one character: the letters A to Z, and the upper-case letters of
  the range 192 to 222 (which leaves out the multiplication sign 215).
\<close>

definition lower_char :: "char \<Rightarrow> char" where
  "lower_char c =
     (let n = (of_char c :: nat)
      in if (65 \<le> n \<and> n \<le> 90) \<or> (192 \<le> n \<and> n \<le> 222 \<and> n \<noteq> 215)
         then char_of (n + 32) else c)"

definition py_lower :: "string \<Rightarrow> string" where
  "py_lower s = map lower_char s"

text \<open>
  The characters that \<open>str.strip\<close> removes: tab to carriage return, the four
  separators from 28 on, the space, next line (133) and the no-break space (160).
\<close>

definition py_isspace :: "char \<Rightarrow> bool" where
  "py_isspace c =
     (let n = (of_char c :: nat)
      in (9 \<le> n \<and> n \<le> 13) \<or> (28 \<le> n \<and> n \<le> 32) \<or> n = 133 \<or> n = 160)"

definition py_strip :: "string \<Rightarrow> string" where
  "py_strip s = rev (dropWhile py_isspace (rev (dropWhile py_isspace s)))"

definition starts_with :: "string \<Rightarrow> string \<Rightarrow> bool" where
  "starts_with sub s = (take (length sub) s = sub)"

definition ends_with :: "string \<Rightarrow> string \<Rightarrow> bool" where
  "ends_with sub s = (length sub \<le> length s \<and> drop (length s - length sub) s = sub)"

text \<open>\<open>find_idx sub s\<close> is the lowest index at which \<open>sub\<close> occurs in \<open>s\<close>.\<close>

fun find_idx :: "string \<Rightarrow> string \<Rightarrow> nat option" where
  "find_idx sub [] = (if sub = [] then Some 0 else None)"
| "find_idx sub (c # cs) =
     (if starts_with sub (c # cs) then Some 0 else map_option Suc (find_idx sub cs))"

text \<open>Python's \<open>sub in s\<close>.\<close>

definition str_contains :: "string \<Rightarrow> string \<Rightarrow> bool" where
  "str_contains sub s = (find_idx sub s \<noteq> None)"

text \<open>Python's \<open>s.find(sub, start)\<close> for \<open>start \<ge> 0\<close>: an index, or -1.\<close>

definition str_find :: "string \<Rightarrow> string \<Rightarrow> nat \<Rightarrow> int" where
  "str_find s sub start =
     (if length s < start then - 1
      else case find_idx sub (drop start s) of
             None \<Rightarrow> - 1
           | Some i \<Rightarrow> int (start + i))"

text \<open>Python's \<open>s[a:b]\<close> for \<open>0 \<le> a\<close> and \<open>0 \<le> b\<close>.\<close>

definition slice :: "string \<Rightarrow> nat \<Rightarrow> nat \<Rightarrow> string" where
  "slice s a b = take (b - a) (drop a s)"

section \<open>Storage Node: handle_client\<close>

text \<open>
  The response envelope is the dictionary \<open>payload_dict\<close>. On the Compute Node its
  entries are read with \<open>dict.get\<close> and a default, so every entry is optional.
\<close>

record payload_dict =
  p_rows :: "row list option"
  p_scanned_rows :: "int option"
  p_query_time :: "real option"

text \<open>One row of the Storage Node's CSV result log.\<close>

record dpu_row =
  d_query_id :: string
  d_execution_time :: real
  d_rows_returned :: nat
  d_scanned_rows :: int
  d_cpu_usage :: real
  d_wall_clock_time :: real

text \<open>
  What the world does during one call of \<open>handle_client\<close>: the outcome of every
  call that leaves the function (\<open>Inl\<close> or \<open>Some\<close> is the exception it raises), and
  the clock and CPU-time readings in the order they are taken. \<open>c_cpu_count\<close> is the
  number of logical CPUs that \<open>psutil.cpu_count\<close> reports, a positive number.
\<close>

record client_env =
  c_recv :: "py_exn + string"
  c_decode :: "string \<Rightarrow> py_exn + string"
  c_execute :: "string \<Rightarrow> py_exn + row list"
  c_dumps_sendall :: "py_exn option"
  c_csv_append :: "py_exn option"
  c_cpu_times_start :: cpu_times
  c_cpu_times_end :: cpu_times
  c_start_wall_time :: real
  c_end_wall_time :: real
  c_query_start :: real
  c_query_end :: real
  c_cpu_count :: nat

text \<open>
  The local variables that the \<open>finally\<close> block reads. A variable that has not been
  assigned is \<open>None\<close>; reading it raises \<open>UnboundLocalError\<close>.
\<close>

record locals =
  v_query_id :: "string option"
  v_query_time :: "real option"
  v_result_data :: "row list option"
  v_scanned_rows :: "int option"

definition unbound :: locals where
  "unbound = \<lparr>v_query_id = None, v_query_time = None, v_result_data = None,
               v_scanned_rows = None\<rparr>"

datatype flow = Completed | Returned | Raised py_exn

record client_result =
  r_response :: "payload_dict option"
  r_csv :: "dpu_row list"
  r_raised :: "py_exn option"

text \<open>Lines 211 to 217: the query id is the text between \<open>query6_\<close> and \<open>.sql\<close>.\<close>

definition extract_query_id :: "string \<Rightarrow> string" where
  "extract_query_id query =
     (if str_contains ''query6_'' query then
        (let start_idx = str_find query ''query6_'' 0 + int (length ''query6_'');
             end_idx = str_find query ''.sql'' (nat start_idx)
         in if end_idx > start_idx then slice query (nat start_idx) (nat end_idx)
            else ''unknown'')
      else ''unknown'')"

text \<open>Lines 223 to 232: the scanned-row estimate.\<close>

definition estimate_scanned_rows :: "string \<Rightarrow> int \<Rightarrow> int" where
  "estimate_scanned_rows query scale_factor =
     (if str_contains ''lineitem'' (py_lower query) then
        (if scale_factor = 1 then 6001215
         else if scale_factor = 10 then 60012150
         else 6001215 * scale_factor)
      else 0)"

text \<open>
  Lines 205 to 248, the body of the \<open>try\<close>: the locals it has assigned when it is
  left, the response that went out in full, and how it is left.
\<close>

definition try_body :: "client_env \<Rightarrow> int \<Rightarrow> locals \<times> payload_dict option \<times> flow" where
  "try_body env scale_factor =
     (case c_recv env of
        Inl e \<Rightarrow> (unbound, None, Raised e)
      | Inr data \<Rightarrow>
          if data = [] then (unbound, None, Returned)
          else (case c_decode env data of
             Inl e \<Rightarrow> (unbound, None, Raised e)
           | Inr text \<Rightarrow>
               (let query = py_strip text;
                    query_id = extract_query_id query;
                    scanned_rows = estimate_scanned_rows query scale_factor
                in case c_execute env query of
                     Inl e \<Rightarrow>
                       (unbound\<lparr>v_query_id := Some query_id,
                                v_scanned_rows := Some scanned_rows\<rparr>, None, Raised e)
                   | Inr result_data \<Rightarrow>
                       (let query_time = c_query_end env - c_query_start env;
                            vars = \<lparr>v_query_id = Some query_id,
                                    v_query_time = Some query_time,
                                    v_result_data = Some result_data,
                                    v_scanned_rows = Some scanned_rows\<rparr>;
                            payload = \<lparr>p_rows = Some result_data,
                                       p_scanned_rows = Some scanned_rows,
                                       p_query_time = Some query_time\<rparr>
                        in case c_dumps_sendall env of
                             Some e \<Rightarrow> (vars, None, Raised e)
                           | None \<Rightarrow> (vars, Some payload, Completed)))))"

text \<open>Lines 250 to 254: the \<open>except Exception\<close> clause.\<close>

definition except_clause :: "locals \<times> flow \<Rightarrow> locals \<times> flow" where
  "except_clause lf =
     (case snd lf of
        Raised e \<Rightarrow>
          ((fst lf)\<lparr>v_query_time := Some 0, v_result_data := Some [],
                    v_scanned_rows := Some 0\<rparr>, Completed)
      | _ \<Rightarrow> lf)"

text \<open>Lines 261 to 268.\<close>

definition cpu_usage_pct :: "cpu_times \<Rightarrow> cpu_times \<Rightarrow> real \<Rightarrow> nat \<Rightarrow> real" where
  "cpu_usage_pct t_start t_end wall_clock_diff cpu_count =
     (let user_time_diff = user t_end - user t_start;
          sys_time_diff = system t_end - system t_start
      in if wall_clock_diff > 0
         then (user_time_diff + sys_time_diff) / (wall_clock_diff * real cpu_count) * 100
         else 0)"

text \<open>
  Lines 255 to 285, the \<open>finally\<close> block: the rows appended to the CSV log and the
  exception that leaves the handler, if any. The log message of line 270 reads
  \<open>query_id\<close> outside the inner \<open>try\<close>; the CSV row is built inside it, so an
  exception there is caught and logged.
\<close>

definition finally_block :: "client_env \<Rightarrow> locals \<Rightarrow> dpu_row list \<times> py_exn option" where
  "finally_block env vars =
     (let wall_clock_diff = c_end_wall_time env - c_start_wall_time env;
          pct = cpu_usage_pct (c_cpu_times_start env) (c_cpu_times_end env)
                  wall_clock_diff (c_cpu_count env)
      in case v_query_id vars of
           None \<Rightarrow> ([], Some (UnboundLocalError ''query_id''))
         | Some query_id \<Rightarrow>
             (case (v_query_time vars, v_result_data vars, v_scanned_rows vars) of
                (Some query_time, Some result_data, Some scanned_rows) \<Rightarrow>
                  (case c_csv_append env of
                     Some e \<Rightarrow> ([], None)
                   | None \<Rightarrow>
                       ([\<lparr>d_query_id = query_id, d_execution_time = query_time,
                          d_rows_returned = length result_data,
                          d_scanned_rows = scanned_rows, d_cpu_usage = pct,
                          d_wall_clock_time = wall_clock_diff\<rparr>], None))
              | _ \<Rightarrow> ([], None)))"

definition handle_client :: "client_env \<Rightarrow> int \<Rightarrow> client_result" where
  "handle_client env scale_factor =
     (let tb = try_body env scale_factor;
          lf = except_clause (fst tb, snd (snd tb));
          fin = finally_block env (fst lf)
      in \<lparr>r_response = fst (snd tb), r_csv = fst fin, r_raised = snd fin\<rparr>)"

section \<open>Compute Node: send_query_and_get_result and run_host_client\<close>

text \<open>
  What the Storage Node's side of one connection does: the outcome of creating the
  socket and connecting, of \<open>sendall\<close>, and of the successive calls of \<open>recv\<close>. A
  call of \<open>recv\<close> returns bytes, raises, or never returns: the sockets have no
  timeout, so a peer that neither sends nor closes blocks the caller for good.
  When the listed events are used up the peer has closed and \<open>recv\<close> returns the
  empty byte string. The two clock readings are those of lines 297 and 314.
\<close>

datatype recv_event = Chunk string | RecvRaises py_exn | RecvBlocks

record net_env =
  n_connect :: "py_exn option"
  n_sendall :: "string \<Rightarrow> py_exn option"
  n_recvs :: "recv_event list"
  n_start_time :: real
  n_end_time :: real

text \<open>Lines 305 to 309. The value \<open>None\<close> says that the loop never ends.\<close>

fun recv_loop :: "recv_event list \<Rightarrow> string \<Rightarrow> (py_exn + string) option" where
  "recv_loop [] received_data = Some (Inr received_data)"
| "recv_loop (RecvRaises e # es) received_data = Some (Inl e)"
| "recv_loop (RecvBlocks # es) received_data = None"
| "recv_loop (Chunk chunk # es) received_data =
     (if chunk = [] then Some (Inr received_data) else recv_loop es (received_data @ chunk))"

text \<open>Lines 300 to 309, the body of the first \<open>try\<close>.\<close>

definition exchange :: "net_env \<Rightarrow> string \<Rightarrow> (py_exn + string) option" where
  "exchange net query =
     (case n_connect net of
        Some e \<Rightarrow> Some (Inl e)
      | None \<Rightarrow>
          (case n_sendall net query of
             Some e \<Rightarrow> Some (Inl e)
           | None \<Rightarrow> recv_loop (n_recvs net) []))"

text \<open>
  The result is the tuple \<open>(result_rows, scanned_rows, data_time, data_size,
  server_query_time)\<close>, or \<open>None\<close> when the call never returns. \<open>pickle_loads\<close> is
  \<open>pickle.loads\<close>; \<open>Inl\<close> also stands for a loaded object that is not a dictionary,
  on which \<open>get\<close> raises. A missing entry is \<open>None\<close> and takes the default of the
  \<open>dict.get\<close> call.
\<close>

definition send_query_and_get_result ::
  "(string \<Rightarrow> py_exn + payload_dict) \<Rightarrow> net_env \<Rightarrow> string
     \<Rightarrow> (row list \<times> int \<times> real \<times> nat \<times> real) option" where
  "send_query_and_get_result pickle_loads net query =
     (case exchange net query of
        None \<Rightarrow> None
      | Some (Inl e) \<Rightarrow> Some ([], 0, 0, 0, 0)
      | Some (Inr received_data) \<Rightarrow>
          (let data_time = n_end_time net - n_start_time net;
               data_size = length received_data
           in case pickle_loads received_data of
                Inl e \<Rightarrow> Some ([], 0, data_time, data_size, 0)
              | Inr payload \<Rightarrow>
                  Some (case p_rows payload of None \<Rightarrow> [] | Some rows \<Rightarrow> rows,
                        case p_scanned_rows payload of None \<Rightarrow> 0 | Some n \<Rightarrow> n,
                        data_time, data_size,
                        case p_query_time payload of None \<Rightarrow> 0 | Some t \<Rightarrow> t)))"

text \<open>One data row of the Compute Node's CSV log.\<close>

record host_row =
  h_query_file :: string
  h_returned_rows :: nat
  h_scanned_rows :: int
  h_data_transfer_time :: real
  h_data_size :: nat
  h_server_query_time :: real
  h_cpu_usage :: real
  h_throughput :: real

text \<open>The world while one query file is processed (lines 368 to 376).\<close>

record query_env =
  q_net :: net_env
  q_cpu_start :: cpu_times
  q_cpu_end :: cpu_times
  q_wall_start :: real
  q_wall_end :: real

text \<open>
  A name listed in the query directory: \<open>os.path.exists\<close> is false for it, or
  opening and reading it raises, or it reads as a text.
\<close>

datatype file_state = Absent | Unreadable py_exn | Readable string

text \<open>
  \<open>e_csv_append\<close> is the outcome of lines 402 to 413 for the row of a file: opening
  the log and writing the row. It raises, for instance, when the file name cannot
  be encoded: \<open>os.listdir\<close> hands over a byte that is not valid UTF-8 as a lone
  surrogate, which the writer refuses.
\<close>

record host_env =
  e_listdir :: "py_exn + string list"
  e_file :: "string \<Rightarrow> file_state"
  e_query :: "string \<Rightarrow> query_env"
  e_pickle_loads :: "string \<Rightarrow> py_exn + payload_dict"
  e_csv_append :: "string \<Rightarrow> py_exn option"
  e_num_cpus :: nat
  e_cpu_times_start :: cpu_times
  e_cpu_times_end :: cpu_times
  e_overall_start :: real
  e_overall_end :: real

text \<open>The running totals of lines 348 to 353 and the data rows written so far.\<close>

record host_state =
  total_scanned :: int
  total_rows_returned :: nat
  total_data_time :: real
  total_data_size :: nat
  total_query_exec_time :: real
  executed_count :: nat
  csv_rows :: "host_row list"

definition init_state :: host_state where
  "init_state = \<lparr>total_scanned = 0, total_rows_returned = 0, total_data_time = 0,
                  total_data_size = 0, total_query_exec_time = 0, executed_count = 0,
                  csv_rows = []\<rparr>"

text \<open>How a piece of the run ends: it completes, an exception leaves it, or it hangs.\<close>

datatype ending = Finished | Aborted py_exn | Hung

text \<open>Line 345, the filter on the names.\<close>

definition is_query_file :: "string \<Rightarrow> bool" where
  "is_query_file f = (starts_with ''query6_'' f \<and> ends_with ''.sql'' f)"

text \<open>Lines 383 and 423.\<close>

definition throughput_of :: "int \<Rightarrow> real \<Rightarrow> real" where
  "throughput_of scanned wall = (if wall > 0 \<and> scanned > 0 then real_of_int scanned / wall else 0)"

text \<open>
  Lines 378 to 385 and 404 to 413: the row that is built for a file from the tuple
  that came back for its query.
\<close>

definition query_row ::
  "host_env \<Rightarrow> string \<Rightarrow> row list \<times> int \<times> real \<times> nat \<times> real \<Rightarrow> host_row" where
  "query_row env qf result =
     (let (result_rows, scanned_rows, data_time, data_size, server_query_time) = result;
          qe = e_query env qf;
          query_wall_diff = q_wall_end qe - q_wall_start qe;
          single_query_cpu_usage_pct =
             cpu_usage_pct (q_cpu_start qe) (q_cpu_end qe) query_wall_diff (e_num_cpus env);
          throughput = throughput_of scanned_rows query_wall_diff;
          row_count = length result_rows
      in \<lparr>h_query_file = qf, h_returned_rows = row_count,
          h_scanned_rows = scanned_rows, h_data_transfer_time = data_time,
          h_data_size = data_size, h_server_query_time = server_query_time,
          h_cpu_usage = single_query_cpu_usage_pct, h_throughput = throughput\<rparr>)"

text \<open>Lines 385 to 391.\<close>

definition add_totals ::
  "host_state \<Rightarrow> row list \<times> int \<times> real \<times> nat \<times> real \<Rightarrow> host_state" where
  "add_totals st result =
     (let (result_rows, scanned_rows, data_time, data_size, server_query_time) = result
      in st\<lparr>total_scanned := total_scanned st + scanned_rows,
            total_rows_returned := total_rows_returned st + length result_rows,
            total_data_time := total_data_time st + data_time,
            total_data_size := total_data_size st + data_size,
            total_query_exec_time := total_query_exec_time st + server_query_time,
            executed_count := executed_count st + 1\<rparr>)"

text \<open>
  Lines 366 to 413: one iteration of the loop for a file that was read. The call
  of \<open>send_query_and_get_result\<close> may never return; the totals are updated before
  the row is appended, and an exception from the append is not caught.
\<close>

definition run_query ::
  "host_env \<Rightarrow> string \<Rightarrow> string \<Rightarrow> host_state \<Rightarrow> host_state \<times> ending" where
  "run_query env qf query st =
     (case send_query_and_get_result (e_pickle_loads env) (q_net (e_query env qf)) query of
        None \<Rightarrow> (st, Hung)
      | Some result \<Rightarrow>
          (let st' = add_totals st result
           in case e_csv_append env qf of
                Some e \<Rightarrow> (st', Aborted e)
              | None \<Rightarrow>
                  (st'\<lparr>csv_rows := csv_rows st' @ [query_row env qf result]\<rparr>, Finished)))"

text \<open>
  Lines 357 to 413, the loop over the sorted names. A name that fails
  \<open>os.path.exists\<close> is skipped; an exception from opening or reading the file is
  not caught and ends the loop, as does an iteration that does not complete.
\<close>

fun query_loop :: "host_env \<Rightarrow> string list \<Rightarrow> host_state \<Rightarrow> host_state \<times> ending" where
  "query_loop env [] st = (st, Finished)"
| "query_loop env (qf # qfs) st =
     (case e_file env qf of
        Absent \<Rightarrow> query_loop env qfs st
      | Unreadable e \<Rightarrow> (st, Aborted e)
      | Readable content \<Rightarrow>
          (case run_query env qf (py_strip content) st of
             (st', Finished) \<Rightarrow> query_loop env qfs st'
           | (st', Aborted e) \<Rightarrow> (st', Aborted e)
           | (st', Hung) \<Rightarrow> (st', Hung)))"

record metrics_data =
  ThroughPut :: real
  execution_time :: real
  cpu_usage :: real
  total_scanned_rows :: int
  total_returned_rows :: nat

definition csv_header :: "string list" where
  "csv_header = [''QueryFile'', ''ReturnedRows'', ''ScannedRows'', ''DataTransferTime'',
                 ''DataSize'', ''ServerQueryTime'', ''CPUUsage'', ''Throughput'']"

text \<open>
  The outcome of \<open>run_host_client\<close>: the contents of the per-query CSV file (header
  and data rows) and what the caller gets: the exception that leaves the function,
  the dictionary it returns, or \<open>None\<close> when it never returns. Creating the results
  directory and writing the header and the metrics file are taken to succeed.
\<close>

record host_result =
  o_csv_header :: "string list"
  o_csv_rows :: "host_row list"
  o_return :: "(py_exn + metrics_data) option"

text \<open>Lines 415 to 442.\<close>

definition summary :: "host_env \<Rightarrow> host_state \<Rightarrow> metrics_data" where
  "summary env st =
     (let overall_wall_time = e_overall_end env - e_overall_start env;
          overall_cpu_usage_pct =
             cpu_usage_pct (e_cpu_times_start env) (e_cpu_times_end env)
               overall_wall_time (e_num_cpus env);
          overall_throughput = throughput_of (total_scanned st) overall_wall_time
      in \<lparr>ThroughPut = overall_throughput, execution_time = overall_wall_time,
          cpu_usage = overall_cpu_usage_pct, total_scanned_rows = total_scanned st,
          total_returned_rows = total_rows_returned st\<rparr>)"

definition run_host_client :: "host_env \<Rightarrow> host_result" where
  "run_host_client env =
     (case e_listdir env of
        Inl e \<Rightarrow> \<lparr>o_csv_header = csv_header, o_csv_rows = [], o_return = Some (Inl e)\<rparr>
      | Inr names \<Rightarrow>
          (let query_files = sort (filter is_query_file names);
               (st, ended) = query_loop env query_files init_state
           in \<lparr>o_csv_header = csv_header, o_csv_rows = csv_rows st,
               o_return =
                 (case ended of
                    Finished \<Rightarrow> Some (Inr (summary env st))
                  | Aborted e \<Rightarrow> Some (Inl e)
                  | Hung \<Rightarrow> None)\<rparr>))"

section \<open>Concrete runs\<close>

text \<open>
  A Storage Node connection on a machine with four logical CPUs: two seconds of
  handling, one second of query execution, 2.5 seconds of CPU time.
\<close>

definition storage_env ::
  "py_exn + string \<Rightarrow> (string \<Rightarrow> py_exn + string) \<Rightarrow> py_exn + row list \<Rightarrow> py_exn option
     \<Rightarrow> client_env" where
  "storage_env received decode executed sent =
     \<lparr>c_recv = received, c_decode = decode, c_execute = (\<lambda>query. executed),
      c_dumps_sendall = sent, c_csv_append = None,
      c_cpu_times_start = \<lparr>user = 1, system = 1 / 2\<rparr>,
      c_cpu_times_end = \<lparr>user = 3, system = 1\<rparr>,
      c_start_wall_time = 100, c_end_wall_time = 102,
      c_query_start = 100, c_query_end = 101, c_cpu_count = 4\<rparr>"

definition utf8_error :: "string \<Rightarrow> py_exn + string" where
  "utf8_error data = Inl UnicodeDecodeError"

definition lineitem_env :: client_env where
  "lineitem_env =
     storage_env (Inr '' SELECT c6 FROM LineItem; '') Inr (Inr [[SReal 2], [SReal 3]]) None"

definition orders_env :: client_env where
  "orders_env = storage_env (Inr ''SELECT 1 FROM orders'') Inr (Inr [[SInt 1]]) None"

definition bad_utf8_env :: client_env where
  "bad_utf8_env = storage_env (Inr [CHR 0xFF]) utf8_error (Inr []) None"

definition no_data_env :: client_env where
  "no_data_env = storage_env (Inr []) Inr (Inr []) None"

text \<open>
  A Compute Node run. The connection for \<open>query6_1.sql\<close> is refused; the one for
  \<open>query6_2.sql\<close> delivers seven bytes that do not unpickle; \<open>query6_3.sql\<close> is
  listed but does not exist; the one for \<open>query6_4.sql\<close> breaks after the first
  byte of the response; the Storage Node never answers \<open>query6_5.sql\<close>. The last
  name holds a byte that is not valid UTF-8 (written here as the byte itself):
  its connection is refused and its row cannot be written. Every other file gets
  the two-row envelope.
\<close>

definition undecodable_name :: string where
  "undecodable_name = ''query6_'' @ CHR 0xFF # ''.sql''"

definition example_net :: "py_exn option \<Rightarrow> recv_event list \<Rightarrow> net_env" where
  "example_net conn evs =
     \<lparr>n_connect = conn, n_sendall = (\<lambda>query. None), n_recvs = evs,
      n_start_time = 10, n_end_time = 12\<rparr>"

definition example_loads :: "string \<Rightarrow> py_exn + payload_dict" where
  "example_loads received =
     (if received = ''OK''
      then Inr \<lparr>p_rows = Some [[SReal 1], [SReal 2]], p_scanned_rows = Some 6001215,
                p_query_time = Some (1 / 2)\<rparr>
      else Inl PickleError)"

definition example_query :: "string \<Rightarrow> query_env" where
  "example_query qf =
     \<lparr>q_net = (if qf = ''query6_1.sql'' \<or> qf = undecodable_name
               then example_net (Some OSError) []
               else if qf = ''query6_2.sql'' then example_net None [Chunk ''garbage'']
               else if qf = ''query6_4.sql'' then example_net None [Chunk ''O'', RecvRaises OSError]
               else if qf = ''query6_5.sql'' then example_net None [RecvBlocks]
               else example_net None [Chunk ''O'', Chunk ''K'']),
      q_cpu_start = \<lparr>user = 0, system = 0\<rparr>,
      q_cpu_end = \<lparr>user = 1, system = 0\<rparr>,
      q_wall_start = 10, q_wall_end = 13\<rparr>"

definition example_host :: "py_exn + string list \<Rightarrow> host_env" where
  "example_host listing =
     \<lparr>e_listdir = listing,
      e_file = (\<lambda>qf. if qf = ''query6_3.sql'' then Absent else Readable '' SELECT 1; ''),
      e_query = example_query, e_pickle_loads = example_loads,
      e_csv_append = (\<lambda>qf. if qf = undecodable_name then Some UnicodeEncodeError else None),
      e_num_cpus = 4,
      e_cpu_times_start = \<lparr>user = 0, system = 0\<rparr>,
      e_cpu_times_end = \<lparr>user = 1, system = 1\<rparr>,
      e_overall_start = 0, e_overall_end = 8\<rparr>"

section \<open>Properties of the string operations\<close>

lemma find_idx_Some_iff: "(\<exists>i. find_idx sub s = Some i) \<longleftrightarrow> (\<exists>as bs. s = as @ sub @ bs)"
proof (induction s)
  case Nil
  then show ?case by auto
next
  case (Cons c cs)
  show ?case
  proof (cases "starts_with sub (c # cs)")
    case True
    then have "c # cs = [] @ sub @ drop (length sub) (c # cs)"
      by (metis append_Nil append_take_drop_id starts_with_def)
    then have "\<exists>as bs. c # cs = as @ sub @ bs" by blast
    with True show ?thesis by simp
  next
    case False
    have "(\<exists>as bs. c # cs = as @ sub @ bs) \<longleftrightarrow> (\<exists>as bs. cs = as @ sub @ bs)"
    proof
      assume "\<exists>as bs. c # cs = as @ sub @ bs"
      then obtain as bs where eq: "c # cs = as @ sub @ bs" by blast
      show "\<exists>as bs. cs = as @ sub @ bs"
      proof (cases as)
        case Nil
        with eq have "take (length sub) (c # cs) = sub" by simp
        with False show ?thesis by (simp add: starts_with_def)
      next
        case (Cons a as')
        with eq show ?thesis by auto
      qed
    next
      assume "\<exists>as bs. cs = as @ sub @ bs"
      then obtain as bs where "cs = as @ sub @ bs" by blast
      then have "c # cs = (c # as) @ sub @ bs" by simp
      then show "\<exists>as bs. c # cs = as @ sub @ bs" by blast
    qed
    with False Cons.IH show ?thesis by auto
  qed
qed

lemma str_contains_iff: "str_contains sub s \<longleftrightarrow> (\<exists>as bs. s = as @ sub @ bs)"
  using find_idx_Some_iff [of sub s] by (auto simp: str_contains_def)

lemma of_char_lower_char:
  "(of_char (lower_char c) :: nat) =
     (if (65 \<le> (of_char c :: nat) \<and> (of_char c :: nat) \<le> 90)
         \<or> (192 \<le> (of_char c :: nat) \<and> (of_char c :: nat) \<le> 222 \<and> (of_char c :: nat) \<noteq> 215)
      then of_char c + 32 else of_char c)"
  by (simp add: lower_char_def Let_def)

lemma py_isspace_lower_char: "py_isspace (lower_char c) = py_isspace c"
  by (simp add: py_isspace_def of_char_lower_char Let_def)

lemma dropWhile_py_lower:
  "dropWhile py_isspace (py_lower s) = py_lower (dropWhile py_isspace s)"
  by (induction s) (simp_all add: py_lower_def py_isspace_lower_char)

lemma py_lower_rev: "py_lower (rev s) = rev (py_lower s)"
  by (simp add: py_lower_def rev_map)

lemma py_lower_strip: "py_lower (py_strip s) = py_strip (py_lower s)"
  by (simp add: py_strip_def dropWhile_py_lower py_lower_rev [symmetric])

lemma str_contains_dropWhile:
  assumes "sub \<noteq> []" "\<not> P (hd sub)"
  shows "str_contains sub (dropWhile P s) \<longleftrightarrow> str_contains sub s"
proof
  assume "str_contains sub (dropWhile P s)"
  then obtain as bs where "dropWhile P s = as @ sub @ bs"
    by (auto simp: str_contains_iff)
  then have "s = (takeWhile P s @ as) @ sub @ bs"
    by (metis append_assoc takeWhile_dropWhile_id)
  then show "str_contains sub s" unfolding str_contains_iff by blast
next
  assume "str_contains sub s"
  then obtain as bs where s: "s = as @ sub @ bs" by (auto simp: str_contains_iff)
  from assms obtain c n where sub: "sub = c # n" "\<not> P c" by (cases sub) auto
  with s have "dropWhile P s = dropWhile P as @ sub @ bs"
    by (simp add: dropWhile_append3)
  then show "str_contains sub (dropWhile P s)" unfolding str_contains_iff by blast
qed

lemma str_contains_rev: "str_contains (rev sub) (rev s) \<longleftrightarrow> str_contains sub s"
proof -
  have "(\<exists>as bs. rev s = as @ rev sub @ bs) \<longleftrightarrow> (\<exists>as bs. s = as @ sub @ bs)"
  proof
    assume "\<exists>as bs. rev s = as @ rev sub @ bs"
    then obtain as bs where "rev s = as @ rev sub @ bs" by blast
    then have "s = rev bs @ sub @ rev as" by (metis append_assoc rev_append rev_rev_ident)
    then show "\<exists>as bs. s = as @ sub @ bs" by blast
  next
    assume "\<exists>as bs. s = as @ sub @ bs"
    then obtain as bs where "s = as @ sub @ bs" by blast
    then have "rev s = rev bs @ rev sub @ rev as" by simp
    then show "\<exists>as bs. rev s = as @ rev sub @ bs" by blast
  qed
  then show ?thesis by (simp add: str_contains_iff)
qed

lemma str_contains_strip:
  assumes "sub \<noteq> []" "\<not> py_isspace (hd sub)" "\<not> py_isspace (last sub)"
  shows "str_contains sub (py_strip s) \<longleftrightarrow> str_contains sub s"
proof -
  have r: "rev sub \<noteq> []" "\<not> py_isspace (hd (rev sub))"
    using assms by (simp_all add: hd_rev)
  have "str_contains sub (py_strip s)
        \<longleftrightarrow> str_contains (rev sub) (dropWhile py_isspace (rev (dropWhile py_isspace s)))"
    unfolding py_strip_def using str_contains_rev [of "rev sub"] by simp
  also have "\<dots> \<longleftrightarrow> str_contains (rev sub) (rev (dropWhile py_isspace s))"
    using r by (rule str_contains_dropWhile)
  also have "\<dots> \<longleftrightarrow> str_contains sub (dropWhile py_isspace s)"
    by (rule str_contains_rev)
  also have "\<dots> \<longleftrightarrow> str_contains sub s"
    using assms(1,2) by (rule str_contains_dropWhile)
  finally show ?thesis .
qed

text \<open>Stripping the received text does not change whether it names the table.\<close>

lemma lineitem_strip:
  "str_contains ''lineitem'' (py_lower (py_strip txt)) = str_contains ''lineitem'' (py_lower txt)"
  by (simp add: py_lower_strip str_contains_strip py_isspace_def)

section \<open>Storage Node\<close>

lemmas handle_client_defs =
  handle_client_def try_body_def except_clause_def finally_block_def unbound_def

text \<open>The response goes out exactly when the query was executed and sent.\<close>

lemma handle_client_response:
  assumes "c_recv env = Inr data" "data \<noteq> []" "c_decode env data = Inr txt"
  shows "r_response (handle_client env scale_factor) =
     (case c_execute env (py_strip txt) of
        Inl e \<Rightarrow> None
      | Inr result_data \<Rightarrow>
          (case c_dumps_sendall env of
             Some e \<Rightarrow> None
           | None \<Rightarrow>
               Some \<lparr>p_rows = Some result_data,
                     p_scanned_rows = Some (estimate_scanned_rows (py_strip txt) scale_factor),
                     p_query_time = Some (c_query_end env - c_query_start env)\<rparr>))"
  using assms by (simp add: handle_client_defs Let_def split: sum.splits option.splits)

lemma handle_client_csv:
  assumes "c_recv env = Inr data" "data \<noteq> []" "c_decode env data = Inr txt"
    and "c_csv_append env = None"
  shows "r_raised (handle_client env scale_factor) = None \<and>
     r_csv (handle_client env scale_factor) =
     [\<lparr>d_query_id = extract_query_id (py_strip txt),
       d_execution_time =
         (case c_execute env (py_strip txt) of
            Inl e \<Rightarrow> 0
          | Inr result_data \<Rightarrow>
              (case c_dumps_sendall env of
                 Some e \<Rightarrow> 0 | None \<Rightarrow> c_query_end env - c_query_start env)),
       d_rows_returned =
         (case c_execute env (py_strip txt) of
            Inl e \<Rightarrow> 0
          | Inr result_data \<Rightarrow>
              (case c_dumps_sendall env of Some e \<Rightarrow> 0 | None \<Rightarrow> length result_data)),
       d_scanned_rows =
         (case c_execute env (py_strip txt) of
            Inl e \<Rightarrow> 0
          | Inr result_data \<Rightarrow>
              (case c_dumps_sendall env of
                 Some e \<Rightarrow> 0
               | None \<Rightarrow> estimate_scanned_rows (py_strip txt) scale_factor)),
       d_cpu_usage =
         cpu_usage_pct (c_cpu_times_start env) (c_cpu_times_end env)
           (c_end_wall_time env - c_start_wall_time env) (c_cpu_count env),
       d_wall_clock_time = c_end_wall_time env - c_start_wall_time env\<rparr>]"
  using assms by (simp add: handle_client_defs Let_def split: sum.splits option.splits)

text \<open>
  C1. A received query whose text contains \<open>lineitem\<close> in any letter case: the response
  that goes out reports 6001215 scanned rows for scale factor 1, 60012150 for scale
  factor 10 and 6001215 times the scale factor otherwise, whatever rows the engine
  returned.
\<close>

theorem lineitem_scanned_rows:
  assumes "c_recv env = Inr data" and "data \<noteq> []" and "c_decode env data = Inr txt"
    and "str_contains ''lineitem'' (py_lower txt)"
    and "r_response (handle_client env scale_factor) = Some p"
  shows "p_scanned_rows p =
     Some (if scale_factor = 1 then 6001215
           else if scale_factor = 10 then 60012150
           else 6001215 * scale_factor)"
  using assms(4,5) handle_client_response [OF assms(1-3), of scale_factor]
  by (auto simp: estimate_scanned_rows_def lineitem_strip split: sum.splits option.splits)

theorem lineitem_scanned_rows_witness:
  "c_recv lineitem_env = Inr '' SELECT c6 FROM LineItem; '' \<and>
   c_decode lineitem_env '' SELECT c6 FROM LineItem; '' = Inr '' SELECT c6 FROM LineItem; '' \<and>
   str_contains ''lineitem'' (py_lower '' SELECT c6 FROM LineItem; '') \<and>
   r_response (handle_client lineitem_env 10) =
     Some \<lparr>p_rows = Some [[SReal 2], [SReal 3]], p_scanned_rows = Some 60012150,
           p_query_time = Some 1\<rparr> \<and>
   p_scanned_rows \<lparr>p_rows = Some [[SReal 2], [SReal 3]], p_scanned_rows = Some 60012150,
                   p_query_time = Some 1\<rparr> = Some 60012150"
proof -
  have h1: "c_recv lineitem_env = Inr '' SELECT c6 FROM LineItem; ''"
    by (simp add: lineitem_env_def storage_env_def)
  have h2: "'' SELECT c6 FROM LineItem; '' \<noteq> []" by simp
  have h3: "c_decode lineitem_env '' SELECT c6 FROM LineItem; ''
              = Inr '' SELECT c6 FROM LineItem; ''"
    by (simp add: lineitem_env_def storage_env_def)
  have h4: "str_contains ''lineitem'' (py_lower '' SELECT c6 FROM LineItem; '')"
    by code_simp
  have h5: "r_response (handle_client lineitem_env 10) =
     Some \<lparr>p_rows = Some [[SReal 2], [SReal 3]], p_scanned_rows = Some 60012150,
           p_query_time = Some 1\<rparr>"
    by code_simp
  from lineitem_scanned_rows [OF h1 h2 h3 h4 h5] h1 h3 h4 h5 show ?thesis by simp
qed

text \<open>
  C9. A received query whose text does not contain \<open>lineitem\<close> in any letter case:
  the response that goes out and every row appended to the CSV log report 0
  scanned rows, for every scale factor and every result of the engine.
\<close>

theorem other_table_scanned_rows:
  assumes "c_recv env = Inr data" and "data \<noteq> []" and "c_decode env data = Inr txt"
    and "\<not> str_contains ''lineitem'' (py_lower txt)"
  shows "(\<forall>p. r_response (handle_client env scale_factor) = Some p \<longrightarrow> p_scanned_rows p = Some 0)
       \<and> (\<forall>r \<in> set (r_csv (handle_client env scale_factor)). d_scanned_rows r = 0)"
  using assms
  by (auto simp: handle_client_defs estimate_scanned_rows_def lineitem_strip Let_def
      split: sum.splits option.splits)

theorem other_table_scanned_rows_witness:
  "c_recv orders_env = Inr ''SELECT 1 FROM orders'' \<and>
   c_decode orders_env ''SELECT 1 FROM orders'' = Inr ''SELECT 1 FROM orders'' \<and>
   \<not> str_contains ''lineitem'' (py_lower ''SELECT 1 FROM orders'') \<and>
   r_response (handle_client orders_env 10) =
     Some \<lparr>p_rows = Some [[SInt 1]], p_scanned_rows = Some 0, p_query_time = Some 1\<rparr> \<and>
   r_csv (handle_client orders_env 10) =
     [\<lparr>d_query_id = ''unknown'', d_execution_time = 1, d_rows_returned = 1,
       d_scanned_rows = 0, d_cpu_usage = 125 / 4, d_wall_clock_time = 2\<rparr>]"
proof -
  have h1: "c_recv orders_env = Inr ''SELECT 1 FROM orders''"
    by (simp add: orders_env_def storage_env_def)
  have h2: "''SELECT 1 FROM orders'' \<noteq> []" by simp
  have h3: "c_decode orders_env ''SELECT 1 FROM orders'' = Inr ''SELECT 1 FROM orders''"
    by (simp add: orders_env_def storage_env_def)
  have h4: "\<not> str_contains ''lineitem'' (py_lower ''SELECT 1 FROM orders'')"
    by code_simp
  have sent: "r_response (handle_client orders_env 10) =
     Some \<lparr>p_rows = Some [[SInt 1]], p_scanned_rows = Some (estimate_scanned_rows (py_strip ''SELECT 1 FROM orders'') 10),
           p_query_time = Some 1\<rparr>"
    by (simp add: handle_client_defs orders_env_def storage_env_def Let_def)
  have logged: "r_csv (handle_client orders_env 10) =
     [\<lparr>d_query_id = extract_query_id (py_strip ''SELECT 1 FROM orders''), d_execution_time = 1, d_rows_returned = 1,
       d_scanned_rows = estimate_scanned_rows (py_strip ''SELECT 1 FROM orders'') 10, d_cpu_usage = 125 / 4, d_wall_clock_time = 2\<rparr>]"
    by (simp add: handle_client_defs orders_env_def storage_env_def Let_def cpu_usage_pct_def)
  have qid: "extract_query_id (py_strip ''SELECT 1 FROM orders'') = ''unknown''"
    by code_simp
  from other_table_scanned_rows [OF h1 h2 h3 h4, of 10] sent logged qid h1 h3 h4
  show ?thesis by simp
qed

text \<open>
  C2, at a request that is not valid UTF-8: the \<open>except\<close> clause catches the
  decoding error and zeroes the three metrics, but \<open>query_id\<close> was never assigned,
  so line 270 raises \<open>UnboundLocalError\<close> out of the handler before the CSV row is
  written.
\<close>

theorem decode_error_logs_nothing:
  "r_csv (handle_client bad_utf8_env 1) = [] \<and>
   r_raised (handle_client bad_utf8_env 1) = Some (UnboundLocalError ''query_id'')"
  by (simp add: handle_client_defs bad_utf8_env_def storage_env_def utf8_error_def)

text \<open>
  C5, at a connection on which the peer sends no data: the early \<open>return\<close> of line
  208 still runs the \<open>finally\<close> block, where line 270 raises \<open>UnboundLocalError\<close>;
  the CSV log gains no row.
\<close>

theorem no_data_logs_nothing:
  "c_recv no_data_env = Inr [] \<and>
   r_csv (handle_client no_data_env 1) = [] \<and>
   r_raised (handle_client no_data_env 1) = Some (UnboundLocalError ''query_id'')"
  by (simp add: handle_client_defs no_data_env_def storage_env_def)

text \<open>
  The same holds for every connection on which \<open>recv\<close> raises, returns nothing, or
  returns bytes that do not decode.
\<close>

lemma no_query_id_logs_nothing:
  assumes "(\<exists>e. c_recv env = Inl e) \<or> c_recv env = Inr []
           \<or> (\<exists>data e. c_recv env = Inr data \<and> c_decode env data = Inl e)"
  shows "handle_client env scale_factor =
           \<lparr>r_response = None, r_csv = [], r_raised = Some (UnboundLocalError ''query_id'')\<rparr>"
  using assms by (auto simp: handle_client_defs)

text \<open>
  Once the request has been decoded, an error while executing the query or while
  serializing and sending the response is caught, and the row appended to the log
  has zero execution time, zero rows and zero scanned rows.
\<close>

lemma execute_or_send_error_logs_zero_row:
  assumes "c_recv env = Inr data" "data \<noteq> []" "c_decode env data = Inr txt"
    and "c_csv_append env = None"
    and "(\<exists>e. c_execute env (py_strip txt) = Inl e) \<or> (\<exists>e. c_dumps_sendall env = Some e)"
  shows "r_raised (handle_client env scale_factor) = None \<and>
         (\<exists>r. r_csv (handle_client env scale_factor) = [r] \<and> d_execution_time r = 0
               \<and> d_rows_returned r = 0 \<and> d_scanned_rows r = 0)"
  using assms(5) handle_client_csv [OF assms(1-4), of scale_factor]
  by (auto split: sum.splits)

lemma cpu_usage_pct_bounds:
  assumes "0 < n"
    and "0 \<le> user t2 - user t1" and "0 \<le> system t2 - system t1"
    and "(user t2 - user t1) + (system t2 - system t1) \<le> real n * w"
  shows "0 \<le> cpu_usage_pct t1 t2 w n \<and> cpu_usage_pct t1 t2 w n \<le> 100 * real n"
proof (cases "0 < w")
  case False
  then show ?thesis by (simp add: cpu_usage_pct_def)
next
  case True
  define q where "q = ((user t2 - user t1) + (system t2 - system t1)) / (w * real n)"
  have pos: "0 < w * real n" using True assms(1) by simp
  have "q \<le> 1"
    unfolding q_def using pos assms(4) by (simp add: mult.commute)
  moreover have "0 \<le> q"
    unfolding q_def using pos assms(2,3) by simp
  moreover have "1 \<le> real n" using assms(1) by simp
  moreover have "cpu_usage_pct t1 t2 w n = q * 100"
    using True by (simp add: cpu_usage_pct_def Let_def q_def)
  ultimately show ?thesis by simp
qed

text \<open>
  Once the request has been decoded and when the append to the log succeeds, the
  log gains exactly one row; its execution time is not negative when the clock did
  not go back during the execution, and its CPU usage lies between 0 and 100 N.
\<close>

lemma decoded_request_logs_one_row:
  assumes "c_recv env = Inr data" "data \<noteq> []" "c_decode env data = Inr txt"
    and "c_csv_append env = None"
    and "c_query_start env \<le> c_query_end env"
    and "0 < c_cpu_count env"
    and "0 \<le> user (c_cpu_times_end env) - user (c_cpu_times_start env)"
    and "0 \<le> system (c_cpu_times_end env) - system (c_cpu_times_start env)"
    and "(user (c_cpu_times_end env) - user (c_cpu_times_start env))
          + (system (c_cpu_times_end env) - system (c_cpu_times_start env))
         \<le> real (c_cpu_count env) * (c_end_wall_time env - c_start_wall_time env)"
  shows "\<exists>r. r_csv (handle_client env scale_factor) = [r] \<and> 0 \<le> d_execution_time r
             \<and> 0 \<le> d_cpu_usage r \<and> d_cpu_usage r \<le> 100 * real (c_cpu_count env)"
  using handle_client_csv [OF assms(1-4), of scale_factor] assms(5)
    cpu_usage_pct_bounds [OF assms(6-9)]
  by (auto split: sum.splits option.splits)


section \<open>Compute Node\<close>

subsection \<open>The exchange with the Storage Node\<close>

lemma recv_loop_raises:
  "[] \<notin> set chunks \<Longrightarrow>
     recv_loop (map Chunk chunks @ RecvRaises e # rest) received_data = Some (Inl e)"
  by (induction chunks arbitrary: received_data) auto


text \<open>
  An error while connecting, while sending, or in a call of \<open>recv\<close> that comes
  before the end of the stream makes the body of the first \<open>try\<close> raise.
\<close>

lemma exchange_transport_error:
  assumes "n_connect net \<noteq> None \<or> n_sendall net query \<noteq> None
           \<or> (\<exists>chunks e rest. n_recvs net = map Chunk chunks @ RecvRaises e # rest
                 \<and> [] \<notin> set chunks)"
  shows "\<exists>e. exchange net query = Some (Inl e)"
proof (cases "n_connect net")
  case (Some e)
  then show ?thesis by (simp add: exchange_def)
next
  case None
  note connected = this
  show ?thesis
  proof (cases "n_sendall net query")
    case (Some e)
    with connected show ?thesis by (simp add: exchange_def)
  next
    case None
    with connected assms obtain chunks e rest where
      "n_recvs net = map Chunk chunks @ RecvRaises e # rest" "[] \<notin> set chunks"
      by auto
    with connected None show ?thesis
      by (simp add: exchange_def recv_loop_raises)
  qed
qed


lemma send_query_connection_failure:
  "exchange net query = Some (Inl e) \<Longrightarrow>
     send_query_and_get_result pickle_loads net query = Some ([], 0, 0, 0, 0)"
  by (simp add: send_query_and_get_result_def)


subsection \<open>One iteration and the loop\<close>

lemma query_row_file: "h_query_file (query_row env qf result) = qf"
  by (simp add: query_row_def Let_def case_prod_beta)

lemma query_row_throughput:
  "h_throughput (query_row env qf result) =
     throughput_of (h_scanned_rows (query_row env qf result))
       (q_wall_end (e_query env qf) - q_wall_start (e_query env qf))"
  by (simp add: query_row_def Let_def case_prod_beta)

lemma add_totals_scanned:
  "total_scanned (add_totals st result) =
     total_scanned st + h_scanned_rows (query_row env qf result)"
  by (simp add: add_totals_def query_row_def Let_def case_prod_beta)

lemma add_totals_rows: "csv_rows (add_totals st result) = csv_rows st"
  by (simp add: add_totals_def Let_def case_prod_beta)

text \<open>What one iteration leaves behind, for each way it can end.\<close>

lemma run_query_cases:
  "(run_query env qf query st = (st, Hung)
      \<and> send_query_and_get_result (e_pickle_loads env) (q_net (e_query env qf)) query = None)
   \<or> (\<exists>result e. run_query env qf query st = (add_totals st result, Aborted e)
         \<and> e_csv_append env qf = Some e)
   \<or> (\<exists>result.
         run_query env qf query st =
           ((add_totals st result)\<lparr>csv_rows := csv_rows st @ [query_row env qf result]\<rparr>,
            Finished)
         \<and> send_query_and_get_result (e_pickle_loads env) (q_net (e_query env qf)) query
             = Some result
         \<and> e_csv_append env qf = None)"
proof (cases "send_query_and_get_result (e_pickle_loads env) (q_net (e_query env qf)) query")
  case None
  then show ?thesis by (simp add: run_query_def)
next
  case (Some result)
  show ?thesis
  proof (cases "e_csv_append env qf")
    case None
    with Some have "run_query env qf query st =
        ((add_totals st result)\<lparr>csv_rows := csv_rows st @ [query_row env qf result]\<rparr>,
         Finished)"
      by (simp add: run_query_def Let_def add_totals_rows)
    with Some None show ?thesis by blast
  next
    case (Some e)
    with \<open>send_query_and_get_result (e_pickle_loads env) (q_net (e_query env qf)) query
            = Some result\<close>
    have "run_query env qf query st = (add_totals st result, Aborted e)"
      by (simp add: run_query_def Let_def)
    with Some show ?thesis by blast
  qed
qed

lemma run_query_finished:
  assumes "send_query_and_get_result (e_pickle_loads env) (q_net (e_query env qf)) query
             = Some result"
    and "e_csv_append env qf = None"
  shows "run_query env qf query st =
           ((add_totals st result)\<lparr>csv_rows := csv_rows st @ [query_row env qf result]\<rparr>,
            Finished)"
  using assms by (simp add: run_query_def Let_def add_totals_rows)

lemma run_query_aborted:
  assumes "send_query_and_get_result (e_pickle_loads env) (q_net (e_query env qf)) query
             = Some result"
    and "e_csv_append env qf = Some e"
  shows "run_query env qf query st = (add_totals st result, Aborted e)"
  using assms by (simp add: run_query_def Let_def)



text \<open>The loop keeps two invariants: the throughput of every row and the scanned total.\<close>

lemma query_loop_invariant:
  assumes "\<forall>r \<in> set (csv_rows st).
             h_throughput r =
               throughput_of (h_scanned_rows r)
                 (q_wall_end (e_query env (h_query_file r))
                   - q_wall_start (e_query env (h_query_file r)))"
    and "total_scanned st = sum_list (map h_scanned_rows (csv_rows st))"
  shows "(\<forall>r \<in> set (csv_rows (fst (query_loop env qfs st))).
             h_throughput r =
               throughput_of (h_scanned_rows r)
                 (q_wall_end (e_query env (h_query_file r))
                   - q_wall_start (e_query env (h_query_file r)))) \<and>
         (snd (query_loop env qfs st) = Finished \<longrightarrow>
            total_scanned (fst (query_loop env qfs st))
              = sum_list (map h_scanned_rows (csv_rows (fst (query_loop env qfs st)))))"
  using assms
proof (induction qfs arbitrary: st)
  case Nil
  then show ?case by simp
next
  case (Cons qf qfs)
  show ?case
  proof (cases "e_file env qf")
    case Absent
    with Cons.IH [OF Cons.prems] show ?thesis by simp
  next
    case (Unreadable e)
    with Cons.prems show ?thesis by simp
  next
    case (Readable content)
    let ?q = "py_strip content"
    consider
      (hung) "run_query env qf ?q st = (st, Hung)"
    | (aborted) result e where "run_query env qf ?q st = (add_totals st result, Aborted e)"
    | (finished) result where
        "run_query env qf ?q st =
           ((add_totals st result)\<lparr>csv_rows := csv_rows st @ [query_row env qf result]\<rparr>,
            Finished)"
      using run_query_cases [of env qf ?q st] by blast
    then show ?thesis
    proof cases
      case hung
      with Readable Cons.prems show ?thesis by simp
    next
      case aborted
      with Readable Cons.prems show ?thesis by (simp add: add_totals_rows)
    next
      case finished
      let ?st = "(add_totals st result)\<lparr>csv_rows := csv_rows st @ [query_row env qf result]\<rparr>"
      have 1: "\<forall>r \<in> set (csv_rows ?st).
                 h_throughput r =
                   throughput_of (h_scanned_rows r)
                     (q_wall_end (e_query env (h_query_file r))
                       - q_wall_start (e_query env (h_query_file r)))"
        using Cons.prems(1) query_row_throughput [of env qf result]
        by (auto simp: query_row_file)
      have 2: "total_scanned ?st = sum_list (map h_scanned_rows (csv_rows ?st))"
        using Cons.prems(2) by (simp add: add_totals_scanned [of st result env qf])
      from Cons.IH [OF 1 2] Readable finished show ?thesis by simp
    qed
  qed
qed

lemma run_host_client_listed:
  assumes "e_listdir env = Inr names"
  shows "run_host_client env =
     \<lparr>o_csv_header = csv_header,
      o_csv_rows = csv_rows (fst (query_loop env (sort (filter is_query_file names)) init_state)),
      o_return =
        (case snd (query_loop env (sort (filter is_query_file names)) init_state) of
           Finished \<Rightarrow>
             Some (Inr (summary env
                    (fst (query_loop env (sort (filter is_query_file names)) init_state))))
         | Aborted e \<Rightarrow> Some (Inl e)
         | Hung \<Rightarrow> None)\<rparr>"
  using assms by (simp add: run_host_client_def Let_def case_prod_beta)



subsection \<open>The claims about the run\<close>




text \<open>
  C4 as amended. When the connection for a query fails, that is when connecting,
  sending, or a call of \<open>recv\<close> before the end of the response raises, the error
  is caught: the tuple that comes back is all zero, and the row built for the
  query has 0 returned rows, 0 scanned rows and 0 server time. When the append of
  that row to the log succeeds, the row is recorded and the loop goes on with the
  remaining files. An exception raised by the append itself is not caught: it
  ends the loop and leaves the run without the row.
\<close>

theorem connection_failure_zero_record:
  assumes "e_file env qf = Readable content"
    and "n_connect (q_net (e_query env qf)) \<noteq> None
         \<or> n_sendall (q_net (e_query env qf)) (py_strip content) \<noteq> None
         \<or> (\<exists>chunks e rest.
               n_recvs (q_net (e_query env qf)) = map Chunk chunks @ RecvRaises e # rest
               \<and> [] \<notin> set chunks)"
  shows "send_query_and_get_result (e_pickle_loads env) (q_net (e_query env qf))
           (py_strip content) = Some ([], 0, 0, 0, 0)
       \<and> query_row env qf ([], 0, 0, 0, 0) =
           \<lparr>h_query_file = qf, h_returned_rows = 0, h_scanned_rows = 0,
            h_data_transfer_time = 0, h_data_size = 0, h_server_query_time = 0,
            h_cpu_usage =
              cpu_usage_pct (q_cpu_start (e_query env qf)) (q_cpu_end (e_query env qf))
                (q_wall_end (e_query env qf) - q_wall_start (e_query env qf))
                (e_num_cpus env),
            h_throughput = 0\<rparr>
       \<and> (e_csv_append env qf = None \<longrightarrow>
            query_loop env (qf # qfs) st =
              query_loop env qfs
                (st\<lparr>executed_count := executed_count st + 1,
                    csv_rows := csv_rows st @ [query_row env qf ([], 0, 0, 0, 0)]\<rparr>))
       \<and> (\<forall>e'. e_csv_append env qf = Some e' \<longrightarrow>
            query_loop env (qf # qfs) st
              = (st\<lparr>executed_count := executed_count st + 1\<rparr>, Aborted e'))"
proof -
  from exchange_transport_error [OF assms(2)] obtain e where
    "exchange (q_net (e_query env qf)) (py_strip content) = Some (Inl e)"
    by blast
  then have res: "send_query_and_get_result (e_pickle_loads env) (q_net (e_query env qf))
                    (py_strip content) = Some ([], 0, 0, 0, 0)"
    by (rule send_query_connection_failure)
  have row: "query_row env qf ([], 0, 0, 0, 0) =
           \<lparr>h_query_file = qf, h_returned_rows = 0, h_scanned_rows = 0,
            h_data_transfer_time = 0, h_data_size = 0, h_server_query_time = 0,
            h_cpu_usage =
              cpu_usage_pct (q_cpu_start (e_query env qf)) (q_cpu_end (e_query env qf))
                (q_wall_end (e_query env qf) - q_wall_start (e_query env qf))
                (e_num_cpus env),
            h_throughput = 0\<rparr>"
    by (simp add: query_row_def Let_def throughput_of_def)
  have totals: "add_totals st ([], 0, 0, 0, 0) = st\<lparr>executed_count := executed_count st + 1\<rparr>"
    by (cases st) (simp add: add_totals_def)
  have goes_on: "query_loop env (qf # qfs) st =
              query_loop env qfs
                (st\<lparr>executed_count := executed_count st + 1,
                    csv_rows := csv_rows st @ [query_row env qf ([], 0, 0, 0, 0)]\<rparr>)"
    if "e_csv_append env qf = None"
    using run_query_finished [OF res that, of st] assms(1) totals by simp
  have stops: "query_loop env (qf # qfs) st
                 = (st\<lparr>executed_count := executed_count st + 1\<rparr>, Aborted e')"
    if "e_csv_append env qf = Some e'" for e'
    using run_query_aborted [OF res that, of st] assms(1) totals by simp
  from res row goes_on stops show ?thesis by blast
qed

theorem connection_failure_zero_record_witness:
  "e_file (example_host (Inr [''query6_4.sql'', ''query6_6.sql''])) ''query6_4.sql''
     = Readable '' SELECT 1; '' \<and>
   n_recvs (q_net (e_query (example_host (Inr [''query6_4.sql'', ''query6_6.sql'']))
                     ''query6_4.sql''))
     = map Chunk [''O''] @ RecvRaises OSError # [] \<and>
   [] \<notin> set [''O''] \<and>
   e_csv_append (example_host (Inr [''query6_4.sql'', ''query6_6.sql''])) ''query6_4.sql''
     = None \<and>
   o_csv_rows (run_host_client (example_host (Inr [''query6_4.sql'', ''query6_6.sql''])))
     = [\<lparr>h_query_file = ''query6_4.sql'', h_returned_rows = 0, h_scanned_rows = 0,
         h_data_transfer_time = 0, h_data_size = 0, h_server_query_time = 0,
         h_cpu_usage = 25 / 3, h_throughput = 0\<rparr>,
        \<lparr>h_query_file = ''query6_6.sql'', h_returned_rows = 2, h_scanned_rows = 6001215,
         h_data_transfer_time = 2, h_data_size = 2, h_server_query_time = 1 / 2,
         h_cpu_usage = 25 / 3, h_throughput = 2000405\<rparr>] \<and>
   o_return (run_host_client (example_host (Inr [''query6_4.sql'', ''query6_6.sql''])))
     = Some (Inr \<lparr>ThroughPut = 6001215 / 8, execution_time = 8, cpu_usage = 25 / 4,
                  total_scanned_rows = 6001215, total_returned_rows = 2\<rparr>)"
proof -
  let ?env = "example_host (Inr [''query6_4.sql'', ''query6_6.sql''])"
  let ?zero = "\<lparr>h_query_file = ''query6_4.sql'', h_returned_rows = 0, h_scanned_rows = 0,
         h_data_transfer_time = 0, h_data_size = 0, h_server_query_time = 0,
         h_cpu_usage = 25 / 3, h_throughput = 0\<rparr>"
  let ?good = "\<lparr>h_query_file = ''query6_6.sql'', h_returned_rows = 2,
         h_scanned_rows = 6001215, h_data_transfer_time = 2, h_data_size = 2,
         h_server_query_time = 1 / 2, h_cpu_usage = 25 / 3, h_throughput = 2000405\<rparr>"
  have h1: "e_file ?env ''query6_4.sql'' = Readable '' SELECT 1; ''"
    by (simp add: example_host_def)
  have recvs: "n_recvs (q_net (e_query ?env ''query6_4.sql''))
                 = map Chunk [''O''] @ RecvRaises OSError # []"
    by (simp add: example_host_def example_query_def example_net_def undecodable_name_def)
  have chunks: "[] \<notin> set [''O'']" by simp
  have h2: "n_connect (q_net (e_query ?env ''query6_4.sql'')) \<noteq> None
         \<or> n_sendall (q_net (e_query ?env ''query6_4.sql'')) (py_strip '' SELECT 1; '') \<noteq> None
         \<or> (\<exists>chunks e rest.
               n_recvs (q_net (e_query ?env ''query6_4.sql''))
                 = map Chunk chunks @ RecvRaises e # rest
               \<and> [] \<notin> set chunks)"
    using recvs chunks by blast
  have append: "e_csv_append ?env ''query6_4.sql'' = None"
    by (simp add: example_host_def undecodable_name_def)
  have cpu: "cpu_usage_pct (q_cpu_start (e_query ?env ''query6_4.sql''))
               (q_cpu_end (e_query ?env ''query6_4.sql''))
               (q_wall_end (e_query ?env ''query6_4.sql'')
                 - q_wall_start (e_query ?env ''query6_4.sql''))
               (e_num_cpus ?env) = 25 / 3"
    by (simp add: example_host_def example_query_def cpu_usage_pct_def)
  have files: "sort (filter is_query_file [''query6_4.sql'', ''query6_6.sql''])
                 = [''query6_4.sql'', ''query6_6.sql'']"
    by code_simp
  have rest: "query_loop ?env [''query6_6.sql'']
      (init_state\<lparr>executed_count := executed_count init_state + 1,
                  csv_rows := csv_rows init_state @ [?zero]\<rparr>)
     = (\<lparr>total_scanned = 6001215, total_rows_returned = 2, total_data_time = 2,
         total_data_size = 2, total_query_exec_time = 1 / 2, executed_count = 2,
         csv_rows = [?zero, ?good]\<rparr>, Finished)"
    by code_simp
  have summ: "summary ?env
      \<lparr>total_scanned = 6001215, total_rows_returned = 2, total_data_time = 2,
       total_data_size = 2, total_query_exec_time = 1 / 2, executed_count = 2,
       csv_rows = [?zero, ?good]\<rparr>
     = \<lparr>ThroughPut = 6001215 / 8, execution_time = 8, cpu_usage = 25 / 4,
        total_scanned_rows = 6001215, total_returned_rows = 2\<rparr>"
    by code_simp
  have listed: "e_listdir ?env = Inr [''query6_4.sql'', ''query6_6.sql'']"
    by (simp add: example_host_def)
  from connection_failure_zero_record [OF h1 h2, of "[''query6_6.sql'']" init_state]
    append cpu
  have "query_loop ?env [''query6_4.sql'', ''query6_6.sql''] init_state
     = query_loop ?env [''query6_6.sql'']
         (init_state\<lparr>executed_count := executed_count init_state + 1,
                     csv_rows := csv_rows init_state @ [?zero]\<rparr>)"
    by (simp del: query_loop.simps)
  then have "query_loop ?env [''query6_4.sql'', ''query6_6.sql''] init_state
     = (\<lparr>total_scanned = 6001215, total_rows_returned = 2, total_data_time = 2,
         total_data_size = 2, total_query_exec_time = 1 / 2, executed_count = 2,
         csv_rows = [?zero, ?good]\<rparr>, Finished)"
    by (simp only: rest)
  with h1 recvs chunks append files summ show ?thesis
    by (simp add: run_host_client_listed [OF listed])
qed

text \<open>
  C4 as stated fails: the connection for the file with the undecodable name is
  refused, and then the append of its row raises, so an exception does leave the
  run and no row is recorded.
\<close>

theorem refused_then_append_raises_counterexample:
  "is_query_file undecodable_name \<and>
   e_file (example_host (Inr [undecodable_name])) undecodable_name = Readable '' SELECT 1; '' \<and>
   n_connect (q_net (e_query (example_host (Inr [undecodable_name])) undecodable_name))
     = Some OSError \<and>
   o_csv_rows (run_host_client (example_host (Inr [undecodable_name]))) = [] \<and>
   o_return (run_host_client (example_host (Inr [undecodable_name])))
     = Some (Inl UnicodeEncodeError)"
  by code_simp


text \<open>
  C10. When the response bytes have been received but do not deserialize, the
  tuple and the row built from it have 0 returned rows, 0 scanned rows and 0
  server time, and keep the measured transfer time and the number of bytes
  received, which is positive when bytes were received; that row is what the
  iteration appends to the log. A connection failure reports 0 for the transfer
  time and the size as well.
\<close>

theorem unpickle_failure_keeps_transfer_metrics:
  assumes "exchange (q_net (e_query env qf)) query = Some (Inr received_data)"
    and "e_pickle_loads env received_data = Inl e"
  shows "send_query_and_get_result (e_pickle_loads env) (q_net (e_query env qf)) query =
           Some ([], 0,
                 n_end_time (q_net (e_query env qf)) - n_start_time (q_net (e_query env qf)),
                 length received_data, 0)
       \<and> query_row env qf
            ([], 0, n_end_time (q_net (e_query env qf)) - n_start_time (q_net (e_query env qf)),
             length received_data, 0) =
           \<lparr>h_query_file = qf, h_returned_rows = 0, h_scanned_rows = 0,
            h_data_transfer_time =
              n_end_time (q_net (e_query env qf)) - n_start_time (q_net (e_query env qf)),
            h_data_size = length received_data, h_server_query_time = 0,
            h_cpu_usage =
              cpu_usage_pct (q_cpu_start (e_query env qf)) (q_cpu_end (e_query env qf))
                (q_wall_end (e_query env qf) - q_wall_start (e_query env qf))
                (e_num_cpus env),
            h_throughput = 0\<rparr>
       \<and> (e_csv_append env qf = None \<longrightarrow>
            csv_rows (fst (run_query env qf query st)) = csv_rows st @
              [\<lparr>h_query_file = qf, h_returned_rows = 0, h_scanned_rows = 0,
                h_data_transfer_time =
                  n_end_time (q_net (e_query env qf)) - n_start_time (q_net (e_query env qf)),
                h_data_size = length received_data, h_server_query_time = 0,
                h_cpu_usage =
                  cpu_usage_pct (q_cpu_start (e_query env qf)) (q_cpu_end (e_query env qf))
                    (q_wall_end (e_query env qf) - q_wall_start (e_query env qf))
                    (e_num_cpus env),
                h_throughput = 0\<rparr>])
       \<and> (received_data \<noteq> [] \<longrightarrow> 0 < length received_data)
       \<and> (\<forall>net' e'. exchange net' query = Some (Inl e') \<longrightarrow>
            send_query_and_get_result (e_pickle_loads env) net' query
              = Some ([], 0, 0, 0, 0))"
proof -
  let ?result = "([], 0 :: int,
                  n_end_time (q_net (e_query env qf)) - n_start_time (q_net (e_query env qf)),
                  length received_data, 0 :: real)"
  have res: "send_query_and_get_result (e_pickle_loads env) (q_net (e_query env qf)) query
               = Some ?result"
    using assms by (simp add: send_query_and_get_result_def)
  have "csv_rows (fst (run_query env qf query st)) = csv_rows st @ [query_row env qf ?result]"
    if "e_csv_append env qf = None"
    using run_query_finished [OF res that, of st] by simp
  then show ?thesis
    using res
    by (simp add: query_row_def Let_def throughput_of_def send_query_connection_failure)
qed

theorem unpickle_failure_keeps_transfer_metrics_witness:
  "exchange (q_net (e_query (example_host (Inr [])) ''query6_2.sql'')) ''SELECT 1;''
     = Some (Inr ''garbage'') \<and>
   e_pickle_loads (example_host (Inr [])) ''garbage'' = Inl PickleError \<and>
   e_csv_append (example_host (Inr [])) ''query6_2.sql'' = None \<and>
   csv_rows (fst (run_query (example_host (Inr [])) ''query6_2.sql'' ''SELECT 1;''
                    init_state))
     = [\<lparr>h_query_file = ''query6_2.sql'', h_returned_rows = 0, h_scanned_rows = 0,
         h_data_transfer_time = 2, h_data_size = 7, h_server_query_time = 0,
         h_cpu_usage = 25 / 3, h_throughput = 0\<rparr>] \<and>
   exchange (example_net (Some OSError) []) ''SELECT 1;'' = Some (Inl OSError) \<and>
   send_query_and_get_result (e_pickle_loads (example_host (Inr [])))
     (example_net (Some OSError) []) ''SELECT 1;'' = Some ([], 0, 0, 0, 0)"
proof -
  let ?env = "example_host (Inr [])"
  have h1: "exchange (q_net (e_query ?env ''query6_2.sql'')) ''SELECT 1;''
              = Some (Inr ''garbage'')"
    by (simp add: example_host_def example_query_def example_net_def exchange_def
        undecodable_name_def)
  have h2: "e_pickle_loads ?env ''garbage'' = Inl PickleError"
    by (simp add: example_host_def example_loads_def)
  have h3: "exchange (example_net (Some OSError) []) ''SELECT 1;'' = Some (Inl OSError)"
    by (simp add: example_net_def exchange_def)
  have append: "e_csv_append ?env ''query6_2.sql'' = None"
    by (simp add: example_host_def undecodable_name_def)
  have vals: "n_end_time (q_net (e_query ?env ''query6_2.sql''))
                - n_start_time (q_net (e_query ?env ''query6_2.sql'')) = 2"
    "cpu_usage_pct (q_cpu_start (e_query ?env ''query6_2.sql''))
       (q_cpu_end (e_query ?env ''query6_2.sql''))
       (q_wall_end (e_query ?env ''query6_2.sql'') - q_wall_start (e_query ?env ''query6_2.sql''))
       (e_num_cpus ?env) = 25 / 3"
    by (simp_all add: example_host_def example_query_def example_net_def cpu_usage_pct_def
        undecodable_name_def)
  from unpickle_failure_keeps_transfer_metrics [OF h1 h2, of init_state] h1 h2 h3 append vals
  show ?thesis by (simp add: init_state_def)
qed

text \<open>
  C8. The throughput recorded for a query is its scanned rows divided by the
  round-trip wall-clock time measured around the call when both are strictly
  positive, and zero otherwise. When the run returns, the overall throughput is
  formed by the same rule from the total of the scanned rows, which is the sum
  over the recorded rows, and the overall wall time.
\<close>

theorem throughput_rule:
  "(\<forall>r \<in> set (o_csv_rows (run_host_client env)).
      h_throughput r =
        (if q_wall_end (e_query env (h_query_file r))
              - q_wall_start (e_query env (h_query_file r)) > 0 \<and> h_scanned_rows r > 0
         then real_of_int (h_scanned_rows r)
              / (q_wall_end (e_query env (h_query_file r))
                  - q_wall_start (e_query env (h_query_file r)))
         else 0))
   \<and> (\<forall>m. o_return (run_host_client env) = Some (Inr m) \<longrightarrow>
        total_scanned_rows m = sum_list (map h_scanned_rows (o_csv_rows (run_host_client env)))
        \<and> execution_time m = e_overall_end env - e_overall_start env
        \<and> ThroughPut m =
            (if execution_time m > 0 \<and> total_scanned_rows m > 0
             then real_of_int (total_scanned_rows m) / execution_time m
             else 0))"
proof (cases "e_listdir env")
  case (Inl e)
  then show ?thesis by (simp add: run_host_client_def)
next
  case (Inr names)
  have "\<forall>r \<in> set (csv_rows init_state).
          h_throughput r =
            throughput_of (h_scanned_rows r)
              (q_wall_end (e_query env (h_query_file r))
                - q_wall_start (e_query env (h_query_file r)))"
    and "total_scanned init_state = sum_list (map h_scanned_rows (csv_rows init_state))"
    by (simp_all add: init_state_def)
  from query_loop_invariant [OF this, of "sort (filter is_query_file names)"]
  show ?thesis
    by (auto simp: run_host_client_listed [OF Inr] summary_def throughput_of_def Let_def
        split: ending.splits)
qed

theorem throughput_rule_witness:
  "o_csv_rows (run_host_client (example_host (Inr [''query6_10.sql''])))
     = [\<lparr>h_query_file = ''query6_10.sql'', h_returned_rows = 2, h_scanned_rows = 6001215,
         h_data_transfer_time = 2, h_data_size = 2, h_server_query_time = 1 / 2,
         h_cpu_usage = 25 / 3, h_throughput = 6001215 / 3\<rparr>] \<and>
   q_wall_end (e_query (example_host (Inr [''query6_10.sql''])) ''query6_10.sql'')
     - q_wall_start (e_query (example_host (Inr [''query6_10.sql''])) ''query6_10.sql'') = 3 \<and>
   o_return (run_host_client (example_host (Inr [''query6_10.sql''])))
     = Some (Inr \<lparr>ThroughPut = 6001215 / 8, execution_time = 8, cpu_usage = 25 / 4,
                  total_scanned_rows = 6001215, total_returned_rows = 2\<rparr>)"
proof -
  let ?env = "example_host (Inr [''query6_10.sql''])"
  have rows: "o_csv_rows (run_host_client ?env)
     = [\<lparr>h_query_file = ''query6_10.sql'', h_returned_rows = 2, h_scanned_rows = 6001215,
         h_data_transfer_time = 2, h_data_size = 2, h_server_query_time = 1 / 2,
         h_cpu_usage = 25 / 3, h_throughput = 6001215 / 3\<rparr>]"
    by code_simp
  have ret: "o_return (run_host_client ?env)
     = Some (Inr \<lparr>ThroughPut = 6001215 / 8, execution_time = 8, cpu_usage = 25 / 4,
                  total_scanned_rows = 6001215, total_returned_rows = 2\<rparr>)"
    by code_simp
  have wall: "q_wall_end (e_query ?env ''query6_10.sql'')
                - q_wall_start (e_query ?env ''query6_10.sql'') = 3"
    by (simp add: example_host_def example_query_def)
  from throughput_rule [of ?env] rows ret wall show ?thesis by simp
qed

text \<open>
  C6 as amended. With no matching file in an existing query directory the run
  writes the header and no data row, and returns zero throughput, zero scanned
  and zero returned rows. The execution time is the measured wall time of the
  run. The CPU usage is the user and system CPU time used during the run, divided
  by the wall time times the number of logical CPUs, times 100, when the wall time
  is positive, and 0 when it is not.
\<close>

theorem empty_corpus_summary:
  assumes "e_listdir env = Inr names" and "filter is_query_file names = []"
  shows "run_host_client env =
     \<lparr>o_csv_header = csv_header, o_csv_rows = [],
      o_return = Some (Inr
        \<lparr>ThroughPut = 0, execution_time = e_overall_end env - e_overall_start env,
         cpu_usage =
           (if 0 < e_overall_end env - e_overall_start env
            then ((user (e_cpu_times_end env) - user (e_cpu_times_start env))
                   + (system (e_cpu_times_end env) - system (e_cpu_times_start env)))
                 / ((e_overall_end env - e_overall_start env) * real (e_num_cpus env)) * 100
            else 0),
         total_scanned_rows = 0, total_returned_rows = 0\<rparr>)\<rparr>"
  using assms(2)
  by (simp add: run_host_client_listed [OF assms(1)] summary_def init_state_def
      throughput_of_def cpu_usage_pct_def Let_def)

theorem empty_corpus_summary_witness:
  "e_listdir (example_host (Inr [''notes.txt''])) = Inr [''notes.txt''] \<and>
   filter is_query_file [''notes.txt''] = [] \<and>
   run_host_client (example_host (Inr [''notes.txt''])) =
     \<lparr>o_csv_header = csv_header, o_csv_rows = [],
      o_return = Some (Inr \<lparr>ThroughPut = 0, execution_time = 8, cpu_usage = 25 / 4,
                            total_scanned_rows = 0, total_returned_rows = 0\<rparr>)\<rparr>"
proof -
  have h1: "e_listdir (example_host (Inr [''notes.txt''])) = Inr [''notes.txt'']"
    by (simp add: example_host_def)
  have h2: "filter is_query_file [''notes.txt''] = []"
    by (simp add: is_query_file_def starts_with_def)
  from empty_corpus_summary [OF h1 h2] h1 h2 show ?thesis
    by (simp add: example_host_def)
qed

text \<open>
  C6 as stated fails: the run over a directory without query files took 8 seconds
  of wall time and 2 seconds of CPU time, and the summary says so.
\<close>

theorem empty_corpus_nonzero_counterexample:
  "e_listdir (example_host (Inr [''notes.txt''])) = Inr [''notes.txt''] \<and>
   filter is_query_file [''notes.txt''] = [] \<and>
   o_return (run_host_client (example_host (Inr [''notes.txt''])))
     = Some (Inr \<lparr>ThroughPut = 0, execution_time = 8, cpu_usage = 25 / 4,
                  total_scanned_rows = 0, total_returned_rows = 0\<rparr>) \<and>
   o_return (run_host_client (example_host (Inr [''notes.txt''])))
     \<noteq> Some (Inr \<lparr>ThroughPut = 0, execution_time = 0, cpu_usage = 0,
                  total_scanned_rows = 0, total_returned_rows = 0\<rparr>)"
  by (simp add: run_host_client_def example_host_def is_query_file_def starts_with_def
      init_state_def summary_def throughput_of_def cpu_usage_pct_def)

text \<open>
  C7 as amended. When listing the query directory raises, as it does for a
  missing directory, that exception leaves the run: nothing is returned, and the
  CSV log holds the header only.
\<close>

theorem missing_directory_raises:
  assumes "e_listdir env = Inl e"
  shows "run_host_client env =
           \<lparr>o_csv_header = csv_header, o_csv_rows = [], o_return = Some (Inl e)\<rparr>"
  using assms by (simp add: run_host_client_def)

theorem missing_directory_raises_witness:
  "e_listdir (example_host (Inl FileNotFoundError)) = Inl FileNotFoundError \<and>
   run_host_client (example_host (Inl FileNotFoundError)) =
     \<lparr>o_csv_header = csv_header, o_csv_rows = [], o_return = Some (Inl FileNotFoundError)\<rparr>"
proof -
  have h: "e_listdir (example_host (Inl FileNotFoundError)) = Inl FileNotFoundError"
    by (simp add: example_host_def)
  from missing_directory_raises [OF h] h show ?thesis by simp
qed

text \<open>
  C7 as stated fails: for a missing query directory the run ends with
  \<open>FileNotFoundError\<close> and returns no summary.
\<close>

theorem missing_directory_counterexample:
  "e_listdir (example_host (Inl FileNotFoundError)) = Inl FileNotFoundError \<and>
   o_return (run_host_client (example_host (Inl FileNotFoundError)))
     = Some (Inl FileNotFoundError)"
  by (simp add: run_host_client_def example_host_def)

end
